theory Spec2Isabelle
  imports Main "HOL-Library.Sublist" "HOL-Library.AList"
begin

section \<open>Python string primitives used by server.py\<close>

text \<open>
  A Python \<open>str\<close> is modelled as a \<open>string\<close> whose characters are the code points 0 to
  255 (ASCII and Latin-1); \<open>of_char c\<close> is the code point of \<open>c\<close>. The built-in methods
  below are the ones \<open>server.py\<close> calls. \<open>str.strip()\<close> removes the characters for which
  \<open>str.isspace\<close> holds: among these code points the codes 9 to 13, 28 to 32, 133
  (U+0085, next line) and 160 (U+00A0, no-break space). \<open>str.lower()\<close> maps \<open>A\<close>..\<open>Z\<close>
  (65 to 90) and the Latin-1 capitals 192 to 222, except the multiplication sign 215, to
  the code point 32 above, and leaves every other one of these code points alone.
\<close>

definition isspace :: "char \<Rightarrow> bool" where
  "isspace c =
     (let n = (of_char c :: nat)
      in (9 \<le> n \<and> n \<le> 13) \<or> (28 \<le> n \<and> n \<le> 32) \<or> n = 133 \<or> n = 160)"

definition strip :: "string \<Rightarrow> string" where
  "strip s = rev (dropWhile isspace (rev (dropWhile isspace s)))"

definition lower_char :: "char \<Rightarrow> char" where
  "lower_char c =
     (let n = (of_char c :: nat)
      in if (65 \<le> n \<and> n \<le> 90) \<or> (192 \<le> n \<and> n \<le> 222 \<and> n \<noteq> 215)
         then char_of (n + 32) else c)"

definition lower :: "string \<Rightarrow> string" where
  "lower s = map lower_char s"

definition newline :: char where
  "newline = CHR 0x0A"

text \<open>\<open>s.split('\n')\<close>: the pieces between newlines; the empty string gives one empty piece.\<close>

fun split_lines :: "string \<Rightarrow> string list" where
  "split_lines [] = [[]]"
| "split_lines (c # cs) =
     (if c = newline then [] # split_lines cs
      else (case split_lines cs of
              [] \<Rightarrow> [[c]]
            | l # ls \<Rightarrow> (c # l) # ls))"

text \<open>\<open>'\n'.join(xs)\<close>.\<close>

fun join_lines :: "string list \<Rightarrow> string" where
  "join_lines [] = []"
| "join_lines [l] = l"
| "join_lines (l # m # ls) = l @ newline # join_lines (m # ls)"

text \<open>\<open>s.startswith((p1, p2, ...))\<close> with a tuple of prefixes.\<close>

definition startswith_any :: "string list \<Rightarrow> string \<Rightarrow> bool" where
  "startswith_any ps s = list_ex (\<lambda>p. prefix p s) ps"

text \<open>\<open>s.replace('#', '')\<close>.\<close>

definition remove_hashes :: "string \<Rightarrow> string" where
  "remove_hashes s = filter (\<lambda>c. c \<noteq> CHR ''#'') s"

section \<open>The link pattern of \<open>_parse_toc\<close>\<close>

text \<open>
  \<open>re.search(r'\[([^\]]+)\]\(([^)]+)\)', line)\<close>. At a start position the pattern reads a
  \<open>[\<close>, a greedy non-empty run of characters other than \<open>]\<close>, the two characters \<open>](\<close>, a
  greedy non-empty run of characters other than \<open>)\<close>, and a \<open>)\<close>. A run that is cut short
  is followed by a character of the run, never by the closing bracket the pattern asks
  for, so backtracking cannot succeed where the maximal run fails: the match at a position
  is decided by the maximal runs. \<open>re.search\<close> returns the match at the leftmost position
  that has one; the result holds group 1 and group 2.
\<close>

definition link_match_at :: "string \<Rightarrow> (string \<times> string) option" where
  "link_match_at s =
     (case s of
        [] \<Rightarrow> None
      | c # r \<Rightarrow>
          if c \<noteq> CHR ''['' then None
          else
            let g1 = takeWhile (\<lambda>x. x \<noteq> CHR '']'') r;
                r1 = dropWhile (\<lambda>x. x \<noteq> CHR '']'') r
            in if g1 = [] then None
               else (case r1 of
                       a # b # r2 \<Rightarrow>
                         if a = CHR '']'' \<and> b = CHR ''('' then
                           let g2 = takeWhile (\<lambda>x. x \<noteq> CHR '')'') r2;
                               r3 = dropWhile (\<lambda>x. x \<noteq> CHR '')'') r2
                           in if g2 = [] then None
                              else (case r3 of
                                      [] \<Rightarrow> None
                                    | d # _ \<Rightarrow> if d = CHR '')'' then Some (g1, g2) else None)
                         else None
                     | _ \<Rightarrow> None))"

fun link_search :: "string \<Rightarrow> (string \<times> string) option" where
  "link_search [] = None"
| "link_search (c # cs) =
     (case link_match_at (c # cs) of
        Some m \<Rightarrow> Some m
      | None \<Rightarrow> link_search cs)"

section \<open>\<open>_parse_toc\<close>\<close>

text \<open>One entry of the list \<open>_parse_toc\<close> returns: a dict with these four keys.\<close>

record section_descriptor =
  title :: string
  category :: string
  url :: string
  description :: string

text \<open>
  The condition of the \<open>continue\<close> under "Filter by query if provided":
  \<open>query and query.lower() not in title.lower() and query.lower() not in current_category.lower()\<close>.
  \<open>query\<close> is \<open>Optional[str]\<close>; \<open>None\<close> and the empty string are both falsy.
\<close>

definition query_rejects :: "string option \<Rightarrow> string \<Rightarrow> string \<Rightarrow> bool" where
  "query_rejects query ttl current_category =
     (case query of
        None \<Rightarrow> False
      | Some q \<Rightarrow> q \<noteq> [] \<and> \<not> sublist (lower q) (lower ttl)
                  \<and> \<not> sublist (lower q) (lower current_category))"

definition list_markers :: "string list" where
  "list_markers = [''-'', ''*'', ''1.'', ''2.'', ''3.'', ''4.'', ''5.'']"

text \<open>
  The body of the \<open>for line in lines\<close> loop. The state is the pair of the two variables the
  loop assigns, \<open>current_category\<close> and \<open>sections\<close>.
\<close>

definition parse_toc_line ::
  "string option \<Rightarrow> string \<times> section_descriptor list \<Rightarrow> string \<Rightarrow> string \<times> section_descriptor list"
where
  "parse_toc_line query st raw =
     (let current_category = fst st; sections = snd st; line = strip raw in
      if line = [] then st
      else if \<not> startswith_any list_markers line then
        (if \<not> prefix ''#'' line \<and> \<not> prefix ''http'' line
         then (strip (remove_hashes line), sections)
         else st)
      else
        (case link_search line of
           None \<Rightarrow> st
         | Some (g1, g2) \<Rightarrow>
             let ttl = strip g1; u = strip g2 in
             if query_rejects query ttl current_category then st
             else (current_category,
                   sections @
                   [\<lparr> title = ttl, category = current_category, url = u,
                      description =
                        (if current_category \<noteq> [] then current_category @ '': '' @ ttl
                         else ttl) \<rparr>])))"

definition parse_toc :: "string \<Rightarrow> string option \<Rightarrow> section_descriptor list" where
  "parse_toc toc_content query =
     snd (foldl (parse_toc_line query) ([], []) (split_lines (strip toc_content)))"

section \<open>\<open>_find_section_content\<close>\<close>

text \<open>
  The test of the outer loop on \<open>lines[i]\<close>: the stripped line, lower-cased, starts with
  \<open>title:\<close>, and the rest of the stripped line (\<open>line[6:]\<close>), stripped and lower-cased,
  equals the lower-cased requested title.
\<close>

definition title_line_matches :: "string \<Rightarrow> string \<Rightarrow> bool" where
  "title_line_matches raw req =
     (let line = strip raw in
      prefix ''title:'' (lower line) \<and> lower (strip (drop 6 line)) = lower req)"

text \<open>
  The first inner loop and the \<open>j += 1\<close> after it, on the lines after the title line
  (\<open>lines[i+1:]\<close>): skip to the first line that strips to \<open>---\<close> and step past it. When there
  is no such line \<open>j\<close> ends beyond the list and nothing is left.
\<close>

definition skip_frontmatter :: "string list \<Rightarrow> string list" where
  "skip_frontmatter ls = drop 1 (dropWhile (\<lambda>l. strip l \<noteq> ''---'') ls)"

text \<open>
  The second inner loop, on \<open>lines[j:]\<close>: it stops before a line that strips to \<open>---\<close>, is
  not the last line, and whose next line strips to \<open>---\<close> or to the empty string; every
  other line is appended to \<open>content_lines\<close>.
\<close>

fun collect_content :: "string list \<Rightarrow> string list" where
  "collect_content [] = []"
| "collect_content [l] = [l]"
| "collect_content (l # n # ls) =
     (if strip l = ''---'' \<and> (strip n = ''---'' \<or> strip n = [])
      then []
      else l # collect_content (n # ls))"

text \<open>The outer loop, on \<open>lines[i:]\<close>. \<open>None\<close> is Python's \<open>None\<close>.\<close>

fun find_in_lines :: "string list \<Rightarrow> string \<Rightarrow> string option" where
  "find_in_lines [] req = None"
| "find_in_lines (l # ls) req =
     (if title_line_matches l req
      then Some (join_lines (collect_content (skip_frontmatter ls)))
      else find_in_lines ls req)"

definition find_section_content :: "string \<Rightarrow> string \<Rightarrow> string option" where
  "find_section_content full_docs req = find_in_lines (split_lines full_docs) req"

section \<open>Exceptions\<close>

text \<open>
  An exception instance (a subclass of \<open>Exception\<close>), by what the handlers of
  \<open>server.py\<close> read from it: \<open>type(e).__name__\<close>, \<open>str(e)\<close> and the text
  \<open>traceback.format_exc()\<close> gives while it is handled. A computation that raises only
  such exceptions returns \<open>Inl e\<close> when it raises \<open>e\<close>.
\<close>

datatype exn = Exn (exn_type: string) (exn_str: string) (exn_traceback: string)

type_synonym 'a outcome = "exn + 'a"

text \<open>
  What a statement inside an \<open>async\<close> function can raise: an instance of \<open>Exception\<close>, or
  an exception that derives from \<open>BaseException\<close> only, given by its class name
  (\<open>asyncio.CancelledError\<close> at an \<open>await\<close> of a cancelled task, \<open>KeyboardInterrupt\<close>,
  \<open>SystemExit\<close>). A computation returns \<open>Inl r\<close> when it raises \<open>r\<close> to its caller.
\<close>

datatype raised = Exception exn | BaseException_only string

type_synonym 'a result = "raised + 'a"

text \<open>
  \<open>try: body except Exception as e: handler\<close>. The clause names \<open>Exception\<close>: an
  instance of it is handed to the handler, every other exception leaves the statement as
  it came.
\<close>

definition try_except :: "'a result \<Rightarrow> (exn \<Rightarrow> 'a result) \<Rightarrow> 'a result" where
  "try_except body handler =
     (case body of
        Inl r \<Rightarrow>
          (case r of
             Exception e \<Rightarrow> handler e
           | BaseException_only n \<Rightarrow> Inl (BaseException_only n))
      | Inr v \<Rightarrow> Inr v)"

section \<open>\<open>_extract_sections_from_docs\<close>\<close>

text \<open>
  A \<open>dict\<close> is an association list in insertion order; \<open>d[k] = v\<close> is \<open>AList.update k v d\<close>,
  which overwrites the value of a key already present where it stands and appends a new
  key at the end.
\<close>

definition not_found_message :: "string \<Rightarrow> string" where
  "not_found_message req = ''Section '' @ [CHR 0x27] @ req @ [CHR 0x27] @ '' not found in documentation.''"

definition error_message :: "string \<Rightarrow> exn \<Rightarrow> string" where
  "error_message req e = ''Error extracting section '' @ [CHR 0x27] @ req @ [CHR 0x27] @ '': '' @ exn_str e"

text \<open>
  The body of \<open>for title in section_titles\<close>, with its \<open>try\<close>/\<open>except\<close>. The call made
  inside the \<open>try\<close> is a parameter \<open>finder\<close>, so that the \<open>except\<close> branch can be stated
  for a call that raises; what a finder raises is an instance of \<open>Exception\<close>, which the
  clause catches. An empty string and \<open>None\<close> are both falsy in \<open>if section_content\<close>.
\<close>

definition extract_title ::
  "(string \<Rightarrow> string \<Rightarrow> string option outcome) \<Rightarrow> string \<Rightarrow>
   (string \<times> string) list \<Rightarrow> string \<Rightarrow> (string \<times> string) list"
where
  "extract_title finder full_docs content_sections req =
     (case finder full_docs req of
        Inr section_content \<Rightarrow>
          (case section_content of
             Some c \<Rightarrow>
               if c \<noteq> [] then AList.update req c content_sections
               else AList.update req (not_found_message req) content_sections
           | None \<Rightarrow> AList.update req (not_found_message req) content_sections)
      | Inl e \<Rightarrow> AList.update req (error_message req e) content_sections)"

definition extract_sections_with ::
  "(string \<Rightarrow> string \<Rightarrow> string option outcome) \<Rightarrow> string \<Rightarrow> string list \<Rightarrow>
   (string \<times> string) list"
where
  "extract_sections_with finder full_docs section_titles =
     foldl (extract_title finder full_docs) [] section_titles"

text \<open>
  \<open>_extract_sections_from_docs\<close> itself calls \<open>_find_section_content\<close>, which on strings
  runs to its \<open>return\<close> without raising.
\<close>

definition extract_sections_from_docs :: "string \<Rightarrow> string list \<Rightarrow> (string \<times> string) list" where
  "extract_sections_from_docs full_docs section_titles =
     extract_sections_with (\<lambda>d t. Inr (find_section_content d t)) full_docs section_titles"

section \<open>The two operations\<close>

text \<open>The values of the dicts the operations return.\<close>

datatype json =
    JStr string
  | JBool bool
  | JInt nat
  | JObj "(string \<times> json) list"

text \<open>
  \<open>{section["title"]: section["url"] for section in parsed_sections}\<close>: a later
  descriptor overwrites the url of an earlier one with the same title.
\<close>

definition section_url_map :: "section_descriptor list \<Rightarrow> (string \<times> string) list" where
  "section_url_map parsed_sections =
     foldl (\<lambda>m s. AList.update (title s) (url s) m) [] parsed_sections"

text \<open>\<open>section_url_map.get(title, "URL not found")\<close>.\<close>

definition url_of :: "(string \<times> string) list \<Rightarrow> string \<Rightarrow> string" where
  "url_of m req = (case map_of m req of Some u \<Rightarrow> u | None \<Rightarrow> ''URL not found'')"

text \<open>
  The HTTP client is outside the program. \<open>toc_get\<close> stands for what the three statements
  \<open>client.get(TOC_URL)\<close>, \<open>raise_for_status()\<close>, \<open>.text\<close> give: the text, or the exception
  one of them raises (a transport error, a timeout, a bad status, or the cancellation of
  the task while it awaits the response). \<open>docs_get\<close> is the same for \<open>FULL_DOCS_URL\<close>.
\<close>

definition identify_failure :: "string \<Rightarrow> exn \<Rightarrow> json" where
  "identify_failure user_query e =
     JObj [(''success'', JBool False),
           (''error'', JStr (exn_str e)),
           (''error_type'', JStr (exn_type e)),
           (''traceback'', JStr (exn_traceback e)),
           (''query'', JStr user_query),
           (''raw_toc_content'', JStr [])]"

definition identify_sections_async :: "string result \<Rightarrow> string \<Rightarrow> json result" where
  "identify_sections_async toc_get user_query =
     try_except
       (case toc_get of
          Inl e \<Rightarrow> Inl e
        | Inr toc_content \<Rightarrow>
            let parsed_sections = parse_toc toc_content None;
                url_map = section_url_map parsed_sections
            in Inr (JObj [(''success'', JBool True),
                          (''query'', JStr user_query),
                          (''raw_toc_content'', JStr toc_content),
                          (''section_urls'', JObj (map (\<lambda>kv. (fst kv, JStr (snd kv))) url_map))]))
       (\<lambda>e. Inr (identify_failure user_query e))"

definition fetch_failure :: "string \<Rightarrow> exn \<Rightarrow> json" where
  "fetch_failure user_query e =
     JObj [(''success'', JBool False),
           (''error'', JStr (exn_str e)),
           (''error_type'', JStr (exn_type e)),
           (''traceback'', JStr (exn_traceback e)),
           (''user_query'', JStr user_query),
           (''extracted_content'', JObj [])]"

text \<open>The loop \<open>for title, content in content_sections.items()\<close>.\<close>

definition attach_url ::
  "(string \<times> string) list \<Rightarrow> (string \<times> json) list \<Rightarrow> string \<times> string \<Rightarrow> (string \<times> json) list"
where
  "attach_url url_map sections_with_urls item =
     AList.update (fst item)
       (JObj [(''url'', JStr (url_of url_map (fst item))), (''content'', JStr (snd item))])
       sections_with_urls"

definition fetch_content_async ::
  "string result \<Rightarrow> string result \<Rightarrow> string list \<Rightarrow> string \<Rightarrow> json result"
where
  "fetch_content_async toc_get docs_get section_titles user_query =
     try_except
       (case toc_get of
          Inl e \<Rightarrow> Inl e
        | Inr toc_content \<Rightarrow>
            (case docs_get of
               Inl e \<Rightarrow> Inl e
             | Inr full_docs \<Rightarrow>
                 let parsed_sections = parse_toc toc_content None;
                     url_map = section_url_map parsed_sections;
                     content_sections = extract_sections_from_docs full_docs section_titles;
                     sections_with_urls = foldl (attach_url url_map) [] content_sections
                 in Inr (JObj [(''success'', JBool True),
                               (''user_query'', JStr user_query),
                               (''extracted_content'', JObj sections_with_urls),
                               (''sections_found'', JInt (length content_sections))])))
       (\<lambda>e. Inr (fetch_failure user_query e))"

section \<open>Vocabulary of the statements\<close>

text \<open>
  A section boundary, as the second inner loop of \<open>_find_section_content\<close> tests it on two
  neighbouring lines: a line that strips to \<open>---\<close>, followed by a line that strips to
  \<open>---\<close> or is blank. \<open>boundary_free ls\<close> says that no two neighbours in \<open>ls\<close> form one.
\<close>

definition section_boundary :: "string \<Rightarrow> string \<Rightarrow> bool" where
  "section_boundary l n = (strip l = ''---'' \<and> (strip n = ''---'' \<or> strip n = []))"

fun boundary_free :: "string list \<Rightarrow> bool" where
  "boundary_free (l # n # ls) = (\<not> section_boundary l n \<and> boundary_free (n # ls))"
| "boundary_free _ = True"

text \<open>
  The value one pass of the loop of \<open>_extract_sections_from_docs\<close> stores under the
  requested title, whichever of the three assignments stores it.
\<close>

definition content_for :: "(string \<Rightarrow> string \<Rightarrow> string option outcome) \<Rightarrow> string \<Rightarrow> string \<Rightarrow> string" where
  "content_for finder full_docs req =
     (case finder full_docs req of
        Inr (Some c) \<Rightarrow> if c \<noteq> [] then c else not_found_message req
      | Inr None \<Rightarrow> not_found_message req
      | Inl e \<Rightarrow> error_message req e)"


section \<open>Example documents\<close>

text \<open>
  A full-docs text in the layout the docstring of \<open>_find_section_content\<close> describes: two
  sections, the first with a markdown rule (\<open>---\<close> followed by text) inside its body.
\<close>

definition example_docs :: string where
  "example_docs =
     ''---\<newline>title: Installation\<newline>sidebar_position: 1\<newline>---\<newline>Run pip.\<newline>---\<newline>more\<newline>---\<newline>\<newline>---\<newline>title: Quickstart\<newline>---\<newline>Go.\<newline>---\<newline>''"

text \<open>A table of contents with an entry above the first category line and two below it.\<close>

definition example_toc :: string where
  "example_toc =
     ''- [Intro](https://x/intro)\<newline>Setup\<newline>- [Installation](https://x/install)\<newline>- [Quickstart](https://x/quick)''"

text \<open>A table of contents with a padded link and a link whose text is a single space.\<close>

definition example_toc_blank :: string where
  "example_toc_blank = ''Guides\<newline>- [ Doc ]( https://x/doc )\<newline>- [ ](y)''"

text \<open>
  A finder that raises for the title \<open>Bad\<close>, and the exception of a request that
  times out.
\<close>

definition example_failing_finder :: "string \<Rightarrow> string \<Rightarrow> string option outcome" where
  "example_failing_finder d t =
     (if t = ''Bad'' then Inl (Exn ''RuntimeError'' ''boom'' ''Traceback (most recent call last): ...'')
      else Inr (find_section_content d t))"

definition example_timeout :: exn where
  "example_timeout = Exn ''ConnectTimeout'' ''timed out'' ''Traceback (most recent call last): ...''"

section \<open>Facts about the string primitives and the loops\<close>

text \<open>
  The two character tests on Latin-1 characters: no-break space and next line are
  stripped; capitals with accents are lower-cased, the multiplication sign and the sharp s
  are not.
\<close>

lemma strip_latin1:
  "strip ([CHR 0xA0, CHR 0x85] @ ''---'' @ [CHR 0x85, CHR 0xA0]) = ''---''"
  by code_simp

lemma lower_latin1:
  "lower [CHR 0xC9, CHR 0xD7, CHR 0xDE, CHR 0xDF, CHR ''Z''] =
     [CHR 0xE9, CHR 0xD7, CHR 0xFE, CHR 0xDF, CHR ''z'']"
  by code_simp

text \<open>
  The loops on documents with Latin-1 characters: a line that holds only a no-break space
  is blank and closes the section after a \<open>---\<close>; a title line with an accented capital
  matches the lower-case request; a closing delimiter behind a no-break space is a closing
  delimiter; a link text behind a no-break space is stripped to the title.
\<close>

lemma find_section_content_nbsp_blank:
  "find_section_content (''title: T\<newline>---\<newline>x\<newline>---\<newline>'' @ [CHR 0xA0] @ ''\<newline>y'') ''T'' = Some ''x''"
  by code_simp

lemma find_section_content_accented_title:
  "find_section_content (''title: '' @ [CHR 0xC9] @ ''cole\<newline>---\<newline>body'') ([CHR 0xE9] @ ''cole'') =
     Some ''body''"
  by code_simp

lemma find_section_content_nbsp_delimiter:
  "find_section_content (''title: T\<newline>'' @ [CHR 0xA0] @ ''---\<newline>body\<newline>more'') ''T'' =
     Some ''body\<newline>more''"
  by code_simp

lemma parse_toc_nbsp_title:
  "parse_toc (''- ['' @ [CHR 0xA0] @ ''installation](u)'') None =
     [\<lparr> title = ''installation'', category = [], url = ''u'', description = ''installation'' \<rparr>]"
  by code_simp

lemma strip_Nil_iff: "strip s = [] \<longleftrightarrow> (\<forall>c\<in>set s. isspace c)"
proof
  assume "strip s = []"
  then have all: "\<forall>c\<in>set (dropWhile isspace s). isspace c"
    by (simp add: strip_def)
  have "dropWhile isspace s = []"
  proof (cases "dropWhile isspace s")
    case Nil
    then show ?thesis .
  next
    case (Cons a r)
    then have "\<not> isspace a" by (metis hd_dropWhile list.sel(1) list.distinct(1))
    with all Cons show ?thesis by simp
  qed
  then show "\<forall>c\<in>set s. isspace c" by simp
next
  assume "\<forall>c\<in>set s. isspace c"
  then have d: "dropWhile isspace s = []" by simp
  show "strip s = []" unfolding strip_def d by simp
qed

lemma find_in_lines_first:
  "\<forall>l\<in>set pre. \<not> title_line_matches l req \<Longrightarrow> title_line_matches tline req \<Longrightarrow>
   find_in_lines (pre @ tline # rest) req = Some (join_lines (collect_content (skip_frontmatter rest)))"
  by (induction pre) auto

lemma find_in_lines_absent:
  "\<forall>l\<in>set ls. \<not> title_line_matches l req \<Longrightarrow> find_in_lines ls req = None"
  by (induction ls) auto

lemma skip_frontmatter_closing:
  "\<forall>l\<in>set fm. strip l \<noteq> ''---'' \<Longrightarrow> strip cline = ''---'' \<Longrightarrow>
   skip_frontmatter (fm @ cline # rest) = rest"
  by (induction fm) (auto simp: skip_frontmatter_def)

lemma skip_frontmatter_unclosed:
  "\<forall>l\<in>set ls. strip l \<noteq> ''---'' \<Longrightarrow> skip_frontmatter ls = []"
  by (induction ls) (auto simp: skip_frontmatter_def)

lemma collect_content_boundary:
  "boundary_free (body @ [b1]) \<Longrightarrow> section_boundary b1 b2 \<Longrightarrow>
   collect_content (body @ b1 # b2 # rest) = body"
proof (induction body)
  case Nil
  then show ?case by (simp add: section_boundary_def)
next
  case (Cons a body)
  then show ?case by (cases body) (auto simp: section_boundary_def)
qed

lemma collect_content_all:
  "boundary_free ls \<Longrightarrow> collect_content ls = ls"
  by (induction ls rule: collect_content.induct) (auto simp: section_boundary_def)

lemma extract_title_update:
  "extract_title finder full_docs cs req = AList.update req (content_for finder full_docs req) cs"
  by (simp add: extract_title_def content_for_def split: sum.splits option.splits)

lemma map_of_foldl_update:
  "map_of (foldl (\<lambda>cs t. AList.update t (g t) cs) acc ts) k =
     (if k \<in> set ts then Some (g k) else map_of acc k)"
  by (induction ts arbitrary: acc) (auto simp: update_conv')

lemma keys_foldl_update:
  "set (map fst (foldl (\<lambda>cs t. AList.update t (g t) cs) acc ts)) = set (map fst acc) \<union> set ts"
  by (induction ts arbitrary: acc) (auto simp: dom_update)

lemma distinct_foldl_update:
  "distinct (map fst acc) \<Longrightarrow> distinct (map fst (foldl (\<lambda>cs t. AList.update t (g t) cs) acc ts))"
  by (induction ts arbitrary: acc) (auto simp: distinct_update)

lemma extract_sections_with_fold:
  "extract_sections_with finder full_docs ts =
     foldl (\<lambda>cs t. AList.update t (content_for finder full_docs t) cs) [] ts"
  by (simp add: extract_sections_with_def extract_title_update[abs_def])

lemma map_of_extract_sections_with:
  "map_of (extract_sections_with finder full_docs ts) k =
     (if k \<in> set ts then Some (content_for finder full_docs k) else None)"
  by (simp add: extract_sections_with_fold map_of_foldl_update)

lemma distinct_extract_sections_with:
  "distinct (map fst (extract_sections_with finder full_docs ts))"
  by (simp add: extract_sections_with_fold distinct_foldl_update)

lemma keys_extract_sections_with:
  "set (map fst (extract_sections_with finder full_docs ts)) = set ts"
  using keys_foldl_update[of _ "[]" ts] by (simp add: extract_sections_with_fold)

lemma length_extract_sections_with:
  "length (extract_sections_with finder full_docs ts) = card (set ts)"
proof -
  have "card (set ts) = card (set (map fst (extract_sections_with finder full_docs ts)))"
    by (simp only: keys_extract_sections_with)
  also have "\<dots> = length (map fst (extract_sections_with finder full_docs ts))"
    by (rule distinct_card) (rule distinct_extract_sections_with)
  finally show ?thesis by simp
qed

lemma update_fresh: "k \<notin> fst ` set al \<Longrightarrow> AList.update k v al = al @ [(k, v)]"
  by (induction al) auto

lemma foldl_attach_url:
  "distinct (map fst acc @ map fst cs) \<Longrightarrow>
   foldl (attach_url m) acc cs =
     acc @ map (\<lambda>kv. (fst kv, JObj [(''url'', JStr (url_of m (fst kv))), (''content'', JStr (snd kv))])) cs"
proof (induction cs arbitrary: acc)
  case Nil
  then show ?case by simp
next
  case (Cons a cs)
  have fresh: "fst a \<notin> fst ` set acc" using Cons.prems by auto
  have "distinct (map fst (acc @ [(fst a, JObj [(''url'', JStr (url_of m (fst a))), (''content'', JStr (snd a))])]) @ map fst cs)"
    using Cons.prems by auto
  then show ?case
    using Cons.IH[of "acc @ [(fst a, JObj [(''url'', JStr (url_of m (fst a))), (''content'', JStr (snd a))])]"]
    by (simp add: attach_url_def update_fresh[OF fresh])
qed

lemma delete_extract:
  "AList.delete bad (foldl (\<lambda>cs t. AList.update t (g t) cs) acc ts) =
   foldl (\<lambda>cs t. AList.update t (g t) cs) (AList.delete bad acc) (removeAll bad ts)"
  by (induction ts arbitrary: acc) (auto simp: delete_update_same delete_update)

lemma link_match_at_nonempty:
  "link_match_at s = Some (g1, g2) \<Longrightarrow> g1 \<noteq> [] \<and> g2 \<noteq> []"
  unfolding link_match_at_def Let_def
  by (simp split: list.splits if_splits)

lemma link_search_nonempty:
  "link_search s = Some (g1, g2) \<Longrightarrow> g1 \<noteq> [] \<and> g2 \<noteq> []"
proof (induction s)
  case Nil
  then show ?case by simp
next
  case (Cons c cs)
  show ?case
  proof (cases "link_match_at (c # cs)")
    case None
    then show ?thesis using Cons by simp
  next
    case (Some m)
    then have "link_match_at (c # cs) = Some (g1, g2)" using Cons.prems by simp
    then show ?thesis by (rule link_match_at_nonempty)
  qed
qed


lemma parse_toc_line_sections:
  "snd (parse_toc_line q st raw) = snd st
   \<or> (\<exists>g1 g2. link_search (strip raw) = Some (g1, g2) \<and>
        snd (parse_toc_line q st raw) =
          snd st @
             [\<lparr> title = strip g1, category = fst st, url = strip g2,
                description = (if fst st \<noteq> [] then fst st @ '': '' @ strip g1 else strip g1) \<rparr>])"
proof (cases "strip raw = [] \<or> \<not> startswith_any list_markers (strip raw)")
  case True
  then show ?thesis by (auto simp: parse_toc_line_def Let_def)
next
  case False
  show ?thesis
  proof (cases "link_search (strip raw)")
    case None
    then show ?thesis using False by (simp add: parse_toc_line_def Let_def)
  next
    case (Some m)
    obtain g1 g2 where m: "m = (g1, g2)" by (cases m)
    show ?thesis
    proof (cases "query_rejects q (strip g1) (fst st)")
      case True
      then show ?thesis using False Some m by (simp add: parse_toc_line_def Let_def)
    next
      case rej: False
      have "snd (parse_toc_line q st raw) =
          snd st @
             [\<lparr> title = strip g1, category = fst st, url = strip g2,
                description = (if fst st \<noteq> [] then fst st @ '': '' @ strip g1 else strip g1) \<rparr>]"
        using False Some m rej by (simp add: parse_toc_line_def Let_def)
      then show ?thesis using Some m by blast
    qed
  qed
qed


lemma parse_toc_fold_invariant:
  assumes "\<forall>d\<in>set (snd st). P d"
    and "\<And>cat g1 g2 raw. raw \<in> set ls \<Longrightarrow> link_search (strip raw) = Some (g1, g2) \<Longrightarrow>
           P \<lparr> title = strip g1, category = cat, url = strip g2,
               description = (if cat \<noteq> [] then cat @ '': '' @ strip g1 else strip g1) \<rparr>"
  shows "\<forall>d\<in>set (snd (foldl (parse_toc_line q) st ls)). P d"
  using assms
proof (induction ls arbitrary: st)
  case Nil
  then show ?case by simp
next
  case (Cons raw ls)
  have step: "\<forall>d\<in>set (snd (parse_toc_line q st raw)). P d"
  proof -
    from parse_toc_line_sections[of q st raw]
    show ?thesis
    proof
      assume "snd (parse_toc_line q st raw) = snd st"
      then show ?thesis using Cons.prems(1) by simp
    next
      assume "\<exists>g1 g2. link_search (strip raw) = Some (g1, g2) \<and>
        snd (parse_toc_line q st raw) =
          snd st @
             [\<lparr> title = strip g1, category = fst st, url = strip g2,
                description = (if fst st \<noteq> [] then fst st @ '': '' @ strip g1 else strip g1) \<rparr>]"
      then obtain g1 g2 where m: "link_search (strip raw) = Some (g1, g2)"
        and eq: "snd (parse_toc_line q st raw) =
          snd st @
             [\<lparr> title = strip g1, category = fst st, url = strip g2,
                description = (if fst st \<noteq> [] then fst st @ '': '' @ strip g1 else strip g1) \<rparr>]"
        by blast
      have "P \<lparr> title = strip g1, category = fst st, url = strip g2,
                description = (if fst st \<noteq> [] then fst st @ '': '' @ strip g1 else strip g1) \<rparr>"
        by (rule Cons.prems(2)[OF _ m]) simp
      then show ?thesis using Cons.prems(1) eq by simp
    qed
  qed
  have "\<forall>d\<in>set (snd (foldl (parse_toc_line q) (parse_toc_line q st raw) ls)). P d"
  proof (rule Cons.IH[OF step])
    fix cat g1 g2 r
    assume "r \<in> set ls" "link_search (strip r) = Some (g1, g2)"
    then show "P \<lparr> title = strip g1, category = cat, url = strip g2,
               description = (if cat \<noteq> [] then cat @ '': '' @ strip g1 else strip g1) \<rparr>"
      using Cons.prems(2)[of r g1 g2 cat] by simp
  qed
  then show ?case by simp
qed

lemma parse_toc_invariant:
  assumes "\<And>cat g1 g2 raw. raw \<in> set (split_lines (strip toc)) \<Longrightarrow> link_search (strip raw) = Some (g1, g2) \<Longrightarrow>
           P \<lparr> title = strip g1, category = cat, url = strip g2,
               description = (if cat \<noteq> [] then cat @ '': '' @ strip g1 else strip g1) \<rparr>"
  shows "\<forall>d\<in>set (parse_toc toc q). P d"
  unfolding parse_toc_def
proof (rule parse_toc_fold_invariant)
  show "\<forall>d\<in>set (snd ([], [])). P d" by simp
qed (rule assms)


lemma title_line_matches_lower:
  "lower a = lower b \<Longrightarrow> title_line_matches l a = title_line_matches l b"
  by (simp add: title_line_matches_def)

lemma find_in_lines_lower:
  "lower a = lower b \<Longrightarrow> find_in_lines ls a = find_in_lines ls b"
proof (induction ls)
  case Nil
  then show ?case by simp
next
  case (Cons l ls)
  have "title_line_matches l a = title_line_matches l b"
    using Cons.prems by (rule title_line_matches_lower)
  then show ?case using Cons by simp
qed

lemma find_section_content_lower:
  "lower a = lower b \<Longrightarrow> find_section_content full_docs a = find_section_content full_docs b"
  unfolding find_section_content_def by (rule find_in_lines_lower)

lemma keys_foldl_url:
  "fst ` set (foldl (\<lambda>m s. AList.update (title s) (url s) m) acc ps) = fst ` set acc \<union> title ` set ps"
  by (induction ps arbitrary: acc) (auto simp: dom_update)

lemma keys_section_url_map:
  "fst ` set (section_url_map ps) = title ` set ps"
  unfolding section_url_map_def by (simp add: keys_foldl_url)

lemma url_of_missing:
  "req \<notin> title ` set ps \<Longrightarrow> url_of (section_url_map ps) req = ''URL not found''"
proof -
  assume "req \<notin> title ` set ps"
  then have "req \<notin> fst ` set (section_url_map ps)" by (simp add: keys_section_url_map)
  then have "map_of (section_url_map ps) req = None" by (simp add: map_of_eq_None_iff)
  then show ?thesis by (simp add: url_of_def)
qed

lemma map_of_entries:
  "map_of cs k = Some v \<Longrightarrow> map_of (map (\<lambda>kv. (fst kv, g kv)) cs) k = Some (g (k, v))"
  by (induction cs) (auto split: if_splits)

lemma fetch_content_async_success:
  "fetch_content_async (Inr toc_content) (Inr full_docs) section_titles user_query =
     Inr (JObj [(''success'', JBool True),
                (''user_query'', JStr user_query),
                (''extracted_content'',
                   JObj (map (\<lambda>kv. (fst kv,
                           JObj [(''url'', JStr (url_of (section_url_map (parse_toc toc_content None)) (fst kv))),
                                 (''content'', JStr (snd kv))]))
                         (extract_sections_from_docs full_docs section_titles))),
                (''sections_found'', JInt (length (extract_sections_from_docs full_docs section_titles)))])"
proof -
  have d: "distinct (map fst [] @ map fst (extract_sections_from_docs full_docs section_titles))"
    by (simp add: extract_sections_from_docs_def distinct_extract_sections_with)
  have f: "foldl (attach_url (section_url_map (parse_toc toc_content None))) []
             (extract_sections_from_docs full_docs section_titles) =
           map (\<lambda>kv. (fst kv,
                   JObj [(''url'', JStr (url_of (section_url_map (parse_toc toc_content None)) (fst kv))),
                         (''content'', JStr (snd kv))]))
               (extract_sections_from_docs full_docs section_titles)"
    using foldl_attach_url[OF d] by simp
  show ?thesis
    unfolding fetch_content_async_def try_except_def Let_def sum.case f
    by (rule refl)
qed

lemma content_for_found:
  "find_section_content full_docs req = Some c \<Longrightarrow> c \<noteq> [] \<Longrightarrow>
   content_for (\<lambda>d t. Inr (find_section_content d t)) full_docs req = c"
  by (simp add: content_for_def)

lemma content_for_empty:
  "find_section_content full_docs req = Some [] \<Longrightarrow>
   content_for (\<lambda>d t. Inr (find_section_content d t)) full_docs req = not_found_message req"
  by (simp add: content_for_def)

lemma content_for_absent:
  "find_section_content full_docs req = None \<Longrightarrow>
   content_for (\<lambda>d t. Inr (find_section_content d t)) full_docs req = not_found_message req"
  by (simp add: content_for_def)

lemma content_for_raised:
  "finder full_docs req = Inl e \<Longrightarrow> content_for finder full_docs req = error_message req e"
  by (simp add: content_for_def)

lemma map_of_extract_sections_from_docs:
  "req \<in> set section_titles \<Longrightarrow>
   map_of (extract_sections_from_docs full_docs section_titles) req =
     Some (content_for (\<lambda>d t. Inr (find_section_content d t)) full_docs req)"
  by (simp add: extract_sections_from_docs_def map_of_extract_sections_with)

lemma extract_two_titles:
  "a \<noteq> b \<Longrightarrow> extract_sections_with finder full_docs [a, b] =
     [(a, content_for finder full_docs a), (b, content_for finder full_docs b)]"
  by (simp add: extract_sections_with_fold)

section \<open>The claims\<close>

subsection \<open>C1: the body \<open>_find_section_content\<close> returns\<close>

text \<open>
  C1. Let the lines of the full-docs text be: lines \<open>pre\<close> none of which is a title line for
  the requested title, the title line \<open>tline\<close>, further front-matter lines \<open>fm\<close> none of
  which strips to \<open>---\<close>, the closing delimiter \<open>cline\<close>, lines \<open>body\<close>, and then the first
  section boundary \<open>b1\<close>, \<open>b2\<close> (no two neighbouring lines of \<open>body @ [b1]\<close> form a boundary).
  Then \<open>_find_section_content\<close> returns the lines of \<open>body\<close> joined with newlines: neither
  \<open>cline\<close> nor \<open>b1\<close> is part of the result. A title that occurs exactly once in the document
  is in particular first matched at \<open>tline\<close>, which is all the statement needs.
\<close>

theorem find_section_content_body:
  assumes "split_lines full_docs = pre @ tline # fm @ cline # body @ b1 # b2 # rest"
    and "\<forall>l\<in>set pre. \<not> title_line_matches l req"
    and "title_line_matches tline req"
    and "\<forall>l\<in>set fm. strip l \<noteq> ''---''"
    and "strip cline = ''---''"
    and "boundary_free (body @ [b1])"
    and "section_boundary b1 b2"
  shows "find_section_content full_docs req = Some (join_lines body)"
proof -
  have "find_section_content full_docs req =
          Some (join_lines (collect_content (skip_frontmatter (fm @ cline # body @ b1 # b2 # rest))))"
    unfolding find_section_content_def assms(1)
    by (rule find_in_lines_first[OF assms(2) assms(3)])
  also have "skip_frontmatter (fm @ cline # body @ b1 # b2 # rest) = body @ b1 # b2 # rest"
    by (rule skip_frontmatter_closing[OF assms(4) assms(5)])
  also have "collect_content (body @ b1 # b2 # rest) = body"
    by (rule collect_content_boundary[OF assms(6) assms(7)])
  finally show ?thesis .
qed

text \<open>
  On \<open>example_docs\<close>, asked for \<open>installation\<close>: the body keeps its inner rule and ends
  before the \<open>---\<close> that a blank line follows.
\<close>

theorem find_section_content_body_witness:
  "find_section_content example_docs ''installation'' = Some ''Run pip.\<newline>---\<newline>more''"
proof -
  have h1: "split_lines example_docs =
      [''---''] @ ''title: Installation'' # [''sidebar_position: 1''] @ ''---'' #
      [''Run pip.'', ''---'', ''more''] @ ''---'' # [] #
      [''---'', ''title: Quickstart'', ''---'', ''Go.'', ''---'', []]"
    by code_simp
  have h2: "\<forall>l\<in>set [''---'']. \<not> title_line_matches l ''installation''" by code_simp
  have h3: "title_line_matches ''title: Installation'' ''installation''" by code_simp
  have h4: "\<forall>l\<in>set [''sidebar_position: 1'']. strip l \<noteq> ''---''" by code_simp
  have h5: "strip ''---'' = ''---''" by code_simp
  have h6: "boundary_free ([''Run pip.'', ''---'', ''more''] @ [''---''])" by code_simp
  have h7: "section_boundary ''---'' []" by code_simp
  have j: "join_lines [''Run pip.'', ''---'', ''more''] = ''Run pip.\<newline>---\<newline>more''"
    by code_simp
  show ?thesis
    using find_section_content_body[OF h1 h2 h3 h4 h5 h6 h7] j by simp
qed

subsection \<open>C2: the operations return failures as data\<close>

text \<open>
  C2, as stated, fails: both bodies are one \<open>try\<close> with the clause \<open>except Exception\<close>, and
  an exception that is not an instance of \<open>Exception\<close> passes it. When the task is
  cancelled while it awaits the TOC response, \<open>asyncio.CancelledError\<close> is raised inside
  the \<open>try\<close> and reaches the caller of either operation.
\<close>

theorem cancelled_request_counterexample:
  "identify_sections_async (Inl (BaseException_only ''CancelledError'')) ''copilot features'' =
     Inl (BaseException_only ''CancelledError'')
   \<and> fetch_content_async (Inl (BaseException_only ''CancelledError'')) (Inr example_docs)
        [''Installation''] ''how'' =
     Inl (BaseException_only ''CancelledError'')"
  by (simp add: identify_sections_async_def fetch_content_async_def try_except_def)

text \<open>
  C2, amended: for every failure that is an instance of \<open>Exception\<close>. When no request
  raises an exception outside \<open>Exception\<close>, \<open>_identify_sections_async\<close> and
  \<open>_fetch_content_async\<close> return a value (\<open>Inr\<close>) for every outcome of the requests, every
  list of titles and every query. When the TOC request raises the instance \<open>e\<close> of
  \<open>Exception\<close>, the discover operation returns the dict with \<open>success: false\<close>, \<open>error\<close>,
  \<open>error_type\<close>, \<open>traceback\<close>, the query and an empty \<open>raw_toc_content\<close>; when the TOC
  request or, after it, the full-docs request raises \<open>e\<close>, the fetch operation returns the
  dict with the same error fields, the query and an empty \<open>extracted_content\<close>. An
  exception outside \<open>Exception\<close> that a request raises is raised to the caller unchanged.
\<close>

theorem operations_catch_exceptions:
  "((\<forall>n. toc_get \<noteq> Inl (BaseException_only n)) \<longrightarrow>
      (\<exists>r. identify_sections_async toc_get user_query = Inr r))
   \<and> ((\<forall>n. toc_get \<noteq> Inl (BaseException_only n)) \<and>
       (\<forall>n. (\<exists>t. toc_get = Inr t) \<longrightarrow> docs_get \<noteq> Inl (BaseException_only n)) \<longrightarrow>
      (\<exists>r. fetch_content_async toc_get docs_get section_titles user_query = Inr r))
   \<and> (\<forall>e. toc_get = Inl (Exception e) \<longrightarrow>
         identify_sections_async toc_get user_query =
           Inr (JObj [(''success'', JBool False),
                      (''error'', JStr (exn_str e)),
                      (''error_type'', JStr (exn_type e)),
                      (''traceback'', JStr (exn_traceback e)),
                      (''query'', JStr user_query),
                      (''raw_toc_content'', JStr [])]))
   \<and> (\<forall>e. toc_get = Inl (Exception e) \<or> ((\<exists>t. toc_get = Inr t) \<and> docs_get = Inl (Exception e)) \<longrightarrow>
         fetch_content_async toc_get docs_get section_titles user_query =
           Inr (JObj [(''success'', JBool False),
                      (''error'', JStr (exn_str e)),
                      (''error_type'', JStr (exn_type e)),
                      (''traceback'', JStr (exn_traceback e)),
                      (''user_query'', JStr user_query),
                      (''extracted_content'', JObj [])]))
   \<and> (\<forall>n. toc_get = Inl (BaseException_only n) \<longrightarrow>
         identify_sections_async toc_get user_query = Inl (BaseException_only n))
   \<and> (\<forall>n. toc_get = Inl (BaseException_only n)
            \<or> ((\<exists>t. toc_get = Inr t) \<and> docs_get = Inl (BaseException_only n)) \<longrightarrow>
         fetch_content_async toc_get docs_get section_titles user_query = Inl (BaseException_only n))"
proof (intro conjI allI impI)
  assume a: "\<forall>n. toc_get \<noteq> Inl (BaseException_only n)"
  show "\<exists>r. identify_sections_async toc_get user_query = Inr r"
  proof (cases toc_get)
    case (Inl r)
    then obtain e where "toc_get = Inl (Exception e)" using a by (cases r) auto
    then show ?thesis by (simp add: identify_sections_async_def try_except_def)
  next
    case (Inr t)
    then show ?thesis by (simp add: identify_sections_async_def try_except_def Let_def)
  qed
next
  assume a: "(\<forall>n. toc_get \<noteq> Inl (BaseException_only n)) \<and>
       (\<forall>n. (\<exists>t. toc_get = Inr t) \<longrightarrow> docs_get \<noteq> Inl (BaseException_only n))"
  show "\<exists>r. fetch_content_async toc_get docs_get section_titles user_query = Inr r"
  proof (cases toc_get)
    case (Inl r)
    then obtain e where "toc_get = Inl (Exception e)" using a by (cases r) auto
    then show ?thesis by (simp add: fetch_content_async_def try_except_def)
  next
    case t: (Inr t)
    show ?thesis
    proof (cases docs_get)
      case (Inl r)
      then obtain e where "docs_get = Inl (Exception e)" using a t by (cases r) auto
      then show ?thesis using t by (simp add: fetch_content_async_def try_except_def)
    next
      case (Inr d)
      then show ?thesis using t by (simp add: fetch_content_async_def try_except_def Let_def)
    qed
  qed
next
  fix e
  assume "toc_get = Inl (Exception e)"
  then show "identify_sections_async toc_get user_query =
           Inr (JObj [(''success'', JBool False),
                      (''error'', JStr (exn_str e)),
                      (''error_type'', JStr (exn_type e)),
                      (''traceback'', JStr (exn_traceback e)),
                      (''query'', JStr user_query),
                      (''raw_toc_content'', JStr [])])"
    by (simp add: identify_sections_async_def try_except_def identify_failure_def)
next
  fix e
  assume "toc_get = Inl (Exception e) \<or> ((\<exists>t. toc_get = Inr t) \<and> docs_get = Inl (Exception e))"
  then show "fetch_content_async toc_get docs_get section_titles user_query =
           Inr (JObj [(''success'', JBool False),
                      (''error'', JStr (exn_str e)),
                      (''error_type'', JStr (exn_type e)),
                      (''traceback'', JStr (exn_traceback e)),
                      (''user_query'', JStr user_query),
                      (''extracted_content'', JObj [])])"
    by (auto simp add: fetch_content_async_def try_except_def fetch_failure_def)
next
  fix n
  assume "toc_get = Inl (BaseException_only n)"
  then show "identify_sections_async toc_get user_query = Inl (BaseException_only n)"
    by (simp add: identify_sections_async_def try_except_def)
next
  fix n
  assume "toc_get = Inl (BaseException_only n)
            \<or> ((\<exists>t. toc_get = Inr t) \<and> docs_get = Inl (BaseException_only n))"
  then show "fetch_content_async toc_get docs_get section_titles user_query = Inl (BaseException_only n)"
    by (auto simp add: fetch_content_async_def try_except_def)
qed

text \<open>
  A timeout of the TOC request in the discover operation, and of the full-docs request in
  the fetch operation.
\<close>

theorem operations_catch_exceptions_witness:
  "identify_sections_async (Inl (Exception example_timeout)) ''copilot features'' =
     Inr (JObj [(''success'', JBool False),
                (''error'', JStr ''timed out''),
                (''error_type'', JStr ''ConnectTimeout''),
                (''traceback'', JStr ''Traceback (most recent call last): ...''),
                (''query'', JStr ''copilot features''),
                (''raw_toc_content'', JStr [])])
   \<and> fetch_content_async (Inr example_toc) (Inl (Exception example_timeout)) [''Installation''] ''how'' =
     Inr (JObj [(''success'', JBool False),
                (''error'', JStr ''timed out''),
                (''error_type'', JStr ''ConnectTimeout''),
                (''traceback'', JStr ''Traceback (most recent call last): ...''),
                (''user_query'', JStr ''how''),
                (''extracted_content'', JObj [])])"
proof (rule conjI)
  have "identify_sections_async (Inl (Exception example_timeout)) ''copilot features'' =
           Inr (JObj [(''success'', JBool False),
                      (''error'', JStr (exn_str example_timeout)),
                      (''error_type'', JStr (exn_type example_timeout)),
                      (''traceback'', JStr (exn_traceback example_timeout)),
                      (''query'', JStr ''copilot features''),
                      (''raw_toc_content'', JStr [])])"
    using operations_catch_exceptions[of "Inl (Exception example_timeout)" "''copilot features''"
        "Inl (Exception example_timeout)" "[]"]
    by blast
  then show "identify_sections_async (Inl (Exception example_timeout)) ''copilot features'' =
     Inr (JObj [(''success'', JBool False),
                (''error'', JStr ''timed out''),
                (''error_type'', JStr ''ConnectTimeout''),
                (''traceback'', JStr ''Traceback (most recent call last): ...''),
                (''query'', JStr ''copilot features''),
                (''raw_toc_content'', JStr [])])"
    by (simp add: example_timeout_def)
  have "fetch_content_async (Inr example_toc) (Inl (Exception example_timeout)) [''Installation''] ''how'' =
           Inr (JObj [(''success'', JBool False),
                      (''error'', JStr (exn_str example_timeout)),
                      (''error_type'', JStr (exn_type example_timeout)),
                      (''traceback'', JStr (exn_traceback example_timeout)),
                      (''user_query'', JStr ''how''),
                      (''extracted_content'', JObj [])])"
    using operations_catch_exceptions[of "Inr example_toc" "''how''"
        "Inl (Exception example_timeout)" "[''Installation'']"]
    by blast
  then show "fetch_content_async (Inr example_toc) (Inl (Exception example_timeout)) [''Installation''] ''how'' =
     Inr (JObj [(''success'', JBool False),
                (''error'', JStr ''timed out''),
                (''error_type'', JStr ''ConnectTimeout''),
                (''traceback'', JStr ''Traceback (most recent call last): ...''),
                (''user_query'', JStr ''how''),
                (''extracted_content'', JObj [])])"
    by (simp add: example_timeout_def)
qed

subsection \<open>C3: the \<open>## Setup\<close> example\<close>

text \<open>
  C3, as stated, fails: the line \<open>## Setup\<close> starts with \<open>#\<close>, so the guard
  \<open>not line.startswith('#')\<close> keeps \<open>current_category\<close> at the empty string, and the two
  descriptors do not have the category \<open>Setup\<close>.
\<close>

theorem setup_heading_category_counterexample:
  "map category
     (parse_toc ''## Setup\<newline>- [Installation](https://x/install)\<newline>- [Quickstart](https://x/quick)'' None)
   \<noteq> [''Setup'', ''Setup'']"
  by code_simp

text \<open>
  C3, amended: the text parses to exactly two descriptors, and both have the empty
  category (and so a description equal to the title).
\<close>

theorem setup_heading_parse:
  "parse_toc ''## Setup\<newline>- [Installation](https://x/install)\<newline>- [Quickstart](https://x/quick)'' None =
     [\<lparr> title = ''Installation'', category = [], url = ''https://x/install'',
         description = ''Installation'' \<rparr>,
      \<lparr> title = ''Quickstart'', category = [], url = ''https://x/quick'',
         description = ''Quickstart'' \<rparr>]"
  by code_simp

subsection \<open>C4: \<open>sections_found\<close>\<close>

text \<open>
  C4. When both requests succeed, the fetch operation returns \<open>sections_found\<close> equal to
  the number of entries of \<open>extracted_content\<close>; the entries have the keys of the
  extractor's mapping, one per distinct requested title, whether the title was found or
  not. In particular, for two different titles of which the first is found with a
  non-empty body \<open>c\<close> and the second is absent, the result has two entries, the second
  one the not-found placeholder, and \<open>sections_found\<close> is 2.
\<close>

theorem sections_found_counts_entries:
  "(\<exists>ec. fetch_content_async (Inr toc_content) (Inr full_docs) section_titles user_query =
            Inr (JObj [(''success'', JBool True),
                       (''user_query'', JStr user_query),
                       (''extracted_content'', JObj ec),
                       (''sections_found'', JInt (length ec))])
          \<and> map fst ec = map fst (extract_sections_from_docs full_docs section_titles)
          \<and> length ec = card (set section_titles))
   \<and> (a \<noteq> b \<and> find_section_content full_docs a = Some c \<and> c \<noteq> []
        \<and> find_section_content full_docs b = None \<longrightarrow>
       fetch_content_async (Inr toc_content) (Inr full_docs) [a, b] user_query =
         Inr (JObj [(''success'', JBool True),
                    (''user_query'', JStr user_query),
                    (''extracted_content'',
                       JObj [(a, JObj [(''url'', JStr (url_of (section_url_map (parse_toc toc_content None)) a)),
                                       (''content'', JStr c)]),
                             (b, JObj [(''url'', JStr (url_of (section_url_map (parse_toc toc_content None)) b)),
                                       (''content'',
                                        JStr (''Section '' @ [CHR 0x27] @ b @ [CHR 0x27] @
                                              '' not found in documentation.''))])]),
                    (''sections_found'', JInt 2)]))"
proof (intro conjI impI)
  let ?cs = "extract_sections_from_docs full_docs section_titles"
  let ?ec = "map (\<lambda>kv. (fst kv,
                 JObj [(''url'', JStr (url_of (section_url_map (parse_toc toc_content None)) (fst kv))),
                       (''content'', JStr (snd kv))])) ?cs"
  have 1: "fetch_content_async (Inr toc_content) (Inr full_docs) section_titles user_query =
            Inr (JObj [(''success'', JBool True),
                       (''user_query'', JStr user_query),
                       (''extracted_content'', JObj ?ec),
                       (''sections_found'', JInt (length ?ec))])"
    using fetch_content_async_success[of toc_content full_docs section_titles user_query] by simp
  have 2: "map fst ?ec = map fst ?cs" by (simp add: comp_def)
  have 3: "length ?ec = card (set section_titles)"
    by (simp add: extract_sections_from_docs_def length_extract_sections_with)
  from 1 2 3
  show "\<exists>ec. fetch_content_async (Inr toc_content) (Inr full_docs) section_titles user_query =
            Inr (JObj [(''success'', JBool True),
                       (''user_query'', JStr user_query),
                       (''extracted_content'', JObj ec),
                       (''sections_found'', JInt (length ec))])
          \<and> map fst ec = map fst (extract_sections_from_docs full_docs section_titles)
          \<and> length ec = card (set section_titles)"
    by blast
next
  assume h: "a \<noteq> b \<and> find_section_content full_docs a = Some c \<and> c \<noteq> []
        \<and> find_section_content full_docs b = None"
  have ca: "content_for (\<lambda>d t. Inr (find_section_content d t)) full_docs a = c"
    using h by (simp add: content_for_found)
  have cb: "content_for (\<lambda>d t. Inr (find_section_content d t)) full_docs b =
              ''Section '' @ [CHR 0x27] @ b @ [CHR 0x27] @ '' not found in documentation.''"
    using h by (simp add: content_for_absent not_found_message_def)
  have ne: "a \<noteq> b" using h by simp
  have ex: "extract_sections_from_docs full_docs [a, b] =
              [(a, c), (b, ''Section '' @ [CHR 0x27] @ b @ [CHR 0x27] @ '' not found in documentation.'')]"
    unfolding extract_sections_from_docs_def extract_two_titles[OF ne] ca cb by (rule refl)
  show "fetch_content_async (Inr toc_content) (Inr full_docs) [a, b] user_query =
         Inr (JObj [(''success'', JBool True),
                    (''user_query'', JStr user_query),
                    (''extracted_content'',
                       JObj [(a, JObj [(''url'', JStr (url_of (section_url_map (parse_toc toc_content None)) a)),
                                       (''content'', JStr c)]),
                             (b, JObj [(''url'', JStr (url_of (section_url_map (parse_toc toc_content None)) b)),
                                       (''content'',
                                        JStr (''Section '' @ [CHR 0x27] @ b @ [CHR 0x27] @
                                              '' not found in documentation.''))])]),
                    (''sections_found'', JInt 2)])"
    unfolding fetch_content_async_success ex by simp
qed

text \<open>
  On the example documents, asking for \<open>Installation\<close> (present) and \<open>Nope\<close> (absent).
\<close>

theorem sections_found_counts_entries_witness:
  "fetch_content_async (Inr example_toc) (Inr example_docs) [''Installation'', ''Nope''] ''how'' =
     Inr (JObj [(''success'', JBool True),
                (''user_query'', JStr ''how''),
                (''extracted_content'',
                   JObj [(''Installation'',
                            JObj [(''url'', JStr ''https://x/install''),
                                  (''content'', JStr ''Run pip.\<newline>---\<newline>more'')]),
                         (''Nope'',
                            JObj [(''url'', JStr ''URL not found''),
                                  (''content'',
                                   JStr (''Section '' @ [CHR 0x27] @ ''Nope'' @ [CHR 0x27] @
                                         '' not found in documentation.''))])]),
                (''sections_found'', JInt 2)])"
proof -
  have h: "''Installation'' \<noteq> ''Nope''
      \<and> find_section_content example_docs ''Installation'' = Some ''Run pip.\<newline>---\<newline>more''
      \<and> ''Run pip.\<newline>---\<newline>more'' \<noteq> []
      \<and> find_section_content example_docs ''Nope'' = None"
    by code_simp
  have u1: "url_of (section_url_map (parse_toc example_toc None)) ''Installation'' = ''https://x/install''"
    by code_simp
  have u2: "url_of (section_url_map (parse_toc example_toc None)) ''Nope'' = ''URL not found''"
    by code_simp
  have "fetch_content_async (Inr example_toc) (Inr example_docs) [''Installation'', ''Nope''] ''how'' =
         Inr (JObj [(''success'', JBool True),
                    (''user_query'', JStr ''how''),
                    (''extracted_content'',
                       JObj [(''Installation'',
                                JObj [(''url'', JStr (url_of (section_url_map (parse_toc example_toc None)) ''Installation'')),
                                       (''content'', JStr ''Run pip.\<newline>---\<newline>more'')]),
                             (''Nope'',
                                JObj [(''url'', JStr (url_of (section_url_map (parse_toc example_toc None)) ''Nope'')),
                                       (''content'',
                                        JStr (''Section '' @ [CHR 0x27] @ ''Nope'' @ [CHR 0x27] @
                                              '' not found in documentation.''))])]),
                    (''sections_found'', JInt 2)])"
    using sections_found_counts_entries[of example_toc example_docs "[''Installation'', ''Nope'']" "''how''" "''Installation''" "''Nope''"
        "''Run pip.\<newline>---\<newline>more''"] h
    by blast
  then show ?thesis unfolding u1 u2 .
qed

subsection \<open>C5: a title absent from the document\<close>

text \<open>
  C5. When no line of the full-docs text is a title line for the requested title (under
  the case-insensitive test of \<open>_find_section_content\<close>), \<open>_find_section_content\<close> returns
  \<open>None\<close>, and \<open>_extract_sections_from_docs\<close> maps a requested title to the string
  \<open>Section '<title>' not found in documentation.\<close>, which is a function of the title
  alone and contains it. The extractor returns a mapping on every input: it has no
  error result.
\<close>

theorem absent_title_placeholder:
  assumes "\<forall>l\<in>set (split_lines full_docs). \<not> title_line_matches l req"
    and "req \<in> set section_titles"
  shows "find_section_content full_docs req = None
     \<and> map_of (extract_sections_from_docs full_docs section_titles) req =
         Some (''Section '' @ [CHR 0x27] @ req @ [CHR 0x27] @ '' not found in documentation.'')
     \<and> sublist req (''Section '' @ [CHR 0x27] @ req @ [CHR 0x27] @ '' not found in documentation.'')"
proof -
  have none: "find_section_content full_docs req = None"
    unfolding find_section_content_def by (rule find_in_lines_absent[OF assms(1)])
  have "map_of (extract_sections_from_docs full_docs section_titles) req = Some (not_found_message req)"
    using map_of_extract_sections_from_docs[OF assms(2)] content_for_absent[OF none] by simp
  then have m: "map_of (extract_sections_from_docs full_docs section_titles) req =
         Some (''Section '' @ [CHR 0x27] @ req @ [CHR 0x27] @ '' not found in documentation.'')"
    by (simp add: not_found_message_def)
  have s: "sublist req (''Section '' @ [CHR 0x27] @ req @ [CHR 0x27] @ '' not found in documentation.'')"
    unfolding sublist_def
    by (rule exI[where x = "''Section '' @ [CHR 0x27]"],
        rule exI[where x = "[CHR 0x27] @ '' not found in documentation.''"]) simp
  from none m s show ?thesis by blast
qed

text \<open>
  On \<open>example_docs\<close>, which has no section \<open>Nope\<close>.
\<close>

theorem absent_title_placeholder_witness:
  "find_section_content example_docs ''Nope'' = None
   \<and> map_of (extract_sections_from_docs example_docs [''Installation'', ''Nope'']) ''Nope'' =
       Some (''Section '' @ [CHR 0x27] @ ''Nope'' @ [CHR 0x27] @ '' not found in documentation.'')"
proof -
  have h1: "\<forall>l\<in>set (split_lines example_docs). \<not> title_line_matches l ''Nope''" by code_simp
  have h2: "''Nope'' \<in> set [''Installation'', ''Nope'']" by simp
  show ?thesis
    using absent_title_placeholder[OF h1 h2] by blast
qed

subsection \<open>C6: a failing title does not disturb the others\<close>

text \<open>
  C6. The \<open>except\<close> branch of the loop is reached only when the call inside the \<open>try\<close>
  raises, so the statement is about the loop with any finder in the place of
  \<open>_find_section_content\<close>. If the finder raises \<open>e\<close> for the title \<open>bad\<close>, then \<open>bad\<close>, when
  requested, is mapped to \<open>Error extracting section '<bad>': <str(e)>\<close>, and the
  mapping without the entry of \<open>bad\<close> is, entry for entry and in the same order, the
  mapping the call returns when \<open>bad\<close> is left out of the requested titles.
\<close>

theorem extraction_failure_isolated:
  assumes "finder full_docs bad = Inl e"
  shows "(bad \<in> set section_titles \<longrightarrow>
            map_of (extract_sections_with finder full_docs section_titles) bad =
              Some (''Error extracting section '' @ [CHR 0x27] @ bad @ [CHR 0x27] @ '': '' @ exn_str e))
     \<and> AList.delete bad (extract_sections_with finder full_docs section_titles) =
         extract_sections_with finder full_docs (removeAll bad section_titles)"
proof -
  have "content_for finder full_docs bad = error_message bad e"
    using content_for_raised[of finder full_docs bad e] assms by simp
  then have a: "bad \<in> set section_titles \<longrightarrow>
            map_of (extract_sections_with finder full_docs section_titles) bad =
              Some (''Error extracting section '' @ [CHR 0x27] @ bad @ [CHR 0x27] @ '': '' @ exn_str e)"
    by (simp add: map_of_extract_sections_with error_message_def)
  have b: "AList.delete bad (extract_sections_with finder full_docs section_titles) =
         extract_sections_with finder full_docs (removeAll bad section_titles)"
    unfolding extract_sections_with_fold
    using delete_extract[of bad "content_for finder full_docs" "[]" section_titles] by simp
  from a b show ?thesis by blast
qed

text \<open>
  With a finder that raises on the title \<open>Bad\<close> and is \<open>_find_section_content\<close> on
  every other title.
\<close>

theorem extraction_failure_isolated_witness:
  "extract_sections_with example_failing_finder example_docs [''Installation'', ''Bad'', ''Quickstart''] =
     [(''Installation'', ''Run pip.\<newline>---\<newline>more''),
      (''Bad'', ''Error extracting section '' @ [CHR 0x27] @ ''Bad'' @ [CHR 0x27] @ '': boom''),
      (''Quickstart'', ''Go.'')]
   \<and> extract_sections_with example_failing_finder example_docs [''Installation'', ''Quickstart''] =
     [(''Installation'', ''Run pip.\<newline>---\<newline>more''), (''Quickstart'', ''Go.'')]
   \<and> AList.delete ''Bad''
        (extract_sections_with example_failing_finder example_docs [''Installation'', ''Bad'', ''Quickstart'']) =
      extract_sections_with example_failing_finder example_docs
        (removeAll ''Bad'' [''Installation'', ''Bad'', ''Quickstart''])"
proof -
  have h: "example_failing_finder example_docs ''Bad'' =
             Inl (Exn ''RuntimeError'' ''boom'' ''Traceback (most recent call last): ...'')"
    by (simp add: example_failing_finder_def)
  have e1: "extract_sections_with example_failing_finder example_docs [''Installation'', ''Bad'', ''Quickstart''] =
     [(''Installation'', ''Run pip.\<newline>---\<newline>more''),
      (''Bad'', ''Error extracting section '' @ [CHR 0x27] @ ''Bad'' @ [CHR 0x27] @ '': boom''),
      (''Quickstart'', ''Go.'')]"
    by code_simp
  have e2: "extract_sections_with example_failing_finder example_docs [''Installation'', ''Quickstart''] =
     [(''Installation'', ''Run pip.\<newline>---\<newline>more''), (''Quickstart'', ''Go.'')]"
    by code_simp
  have e3: "AList.delete ''Bad''
        (extract_sections_with example_failing_finder example_docs [''Installation'', ''Bad'', ''Quickstart'']) =
      extract_sections_with example_failing_finder example_docs
        (removeAll ''Bad'' [''Installation'', ''Bad'', ''Quickstart''])"
    using extraction_failure_isolated[of example_failing_finder example_docs "''Bad''"
        "Exn ''RuntimeError'' ''boom'' ''Traceback (most recent call last): ...''"
        "[''Installation'', ''Bad'', ''Quickstart'']"] h
    by blast
  from e1 e2 e3 show ?thesis by (intro conjI)
qed

subsection \<open>C7: title and url of a descriptor\<close>

text \<open>
  C7, as stated, fails: the pattern asks for a non-empty link text and target, but both
  are stripped after the match, so a text or target of spaces gives an empty string.
\<close>

theorem blank_link_counterexample:
  "parse_toc ''- [ ](x)\<newline>- [a]( )'' None =
     [\<lparr> title = [], category = [], url = ''x'', description = [] \<rparr>,
      \<lparr> title = ''a'', category = [], url = [], description = ''a'' \<rparr>]"
  by code_simp

text \<open>
  C7, amended: every descriptor comes from a match of the link pattern on a stripped line
  of the stripped TOC text; the matched link text \<open>g1\<close> and target \<open>g2\<close> are non-empty, the
  title is \<open>g1\<close> stripped and the url is \<open>g2\<close> stripped; so the title (the url) is empty
  exactly when the link text (the target) consists of whitespace only.
\<close>

theorem descriptor_title_url:
  "\<forall>d\<in>set (parse_toc toc_content query).
    \<exists>g1 g2. (\<exists>raw\<in>set (split_lines (strip toc_content)). link_search (strip raw) = Some (g1, g2))
      \<and> g1 \<noteq> [] \<and> g2 \<noteq> []
      \<and> title d = strip g1 \<and> url d = strip g2
      \<and> (title d = [] \<longleftrightarrow> (\<forall>c\<in>set g1. isspace c))
      \<and> (url d = [] \<longleftrightarrow> (\<forall>c\<in>set g2. isspace c))"
proof (rule parse_toc_invariant)
  fix cat g1 g2 raw
  assume raw: "raw \<in> set (split_lines (strip toc_content))"
    and m: "link_search (strip raw) = Some (g1, g2)"
  let ?d = "\<lparr> title = strip g1, category = cat, url = strip g2,
               description = (if cat \<noteq> [] then cat @ '': '' @ strip g1 else strip g1) \<rparr>"
  have ne: "g1 \<noteq> [] \<and> g2 \<noteq> []" using m by (rule link_search_nonempty)
  have found: "\<exists>raw\<in>set (split_lines (strip toc_content)). link_search (strip raw) = Some (g1, g2)"
    using raw m by blast
  have "(\<exists>raw\<in>set (split_lines (strip toc_content)). link_search (strip raw) = Some (g1, g2))
      \<and> g1 \<noteq> [] \<and> g2 \<noteq> []
      \<and> title ?d = strip g1 \<and> url ?d = strip g2
      \<and> (title ?d = [] \<longleftrightarrow> (\<forall>c\<in>set g1. isspace c))
      \<and> (url ?d = [] \<longleftrightarrow> (\<forall>c\<in>set g2. isspace c))"
    using found ne by (simp add: strip_Nil_iff)
  then show "\<exists>g1 g2. (\<exists>raw\<in>set (split_lines (strip toc_content)). link_search (strip raw) = Some (g1, g2))
      \<and> g1 \<noteq> [] \<and> g2 \<noteq> []
      \<and> title ?d = strip g1 \<and> url ?d = strip g2
      \<and> (title ?d = [] \<longleftrightarrow> (\<forall>c\<in>set g1. isspace c))
      \<and> (url ?d = [] \<longleftrightarrow> (\<forall>c\<in>set g2. isspace c))"
    by blast
qed

text \<open>
  On \<open>example_toc_blank\<close>: a link with padded text and target, and one whose text is a space.
\<close>

theorem descriptor_title_url_witness:
  "parse_toc example_toc_blank None =
     [\<lparr> title = ''Doc'', category = ''Guides'', url = ''https://x/doc'', description = ''Guides: Doc'' \<rparr>,
      \<lparr> title = [], category = ''Guides'', url = ''y'', description = ''Guides: '' \<rparr>]
   \<and> list_all (\<lambda>d. \<exists>g1 g2.
          (\<exists>raw\<in>set (split_lines (strip example_toc_blank)). link_search (strip raw) = Some (g1, g2))
          \<and> g1 \<noteq> [] \<and> g2 \<noteq> [] \<and> title d = strip g1 \<and> url d = strip g2
          \<and> (title d = [] \<longleftrightarrow> (\<forall>c\<in>set g1. isspace c))
          \<and> (url d = [] \<longleftrightarrow> (\<forall>c\<in>set g2. isspace c)))
        (parse_toc example_toc_blank None)"
proof (rule conjI)
  show "parse_toc example_toc_blank None =
     [\<lparr> title = ''Doc'', category = ''Guides'', url = ''https://x/doc'', description = ''Guides: Doc'' \<rparr>,
      \<lparr> title = [], category = ''Guides'', url = ''y'', description = ''Guides: '' \<rparr>]"
    by code_simp
  show "list_all (\<lambda>d. \<exists>g1 g2.
          (\<exists>raw\<in>set (split_lines (strip example_toc_blank)). link_search (strip raw) = Some (g1, g2))
          \<and> g1 \<noteq> [] \<and> g2 \<noteq> [] \<and> title d = strip g1 \<and> url d = strip g2
          \<and> (title d = [] \<longleftrightarrow> (\<forall>c\<in>set g1. isspace c))
          \<and> (url d = [] \<longleftrightarrow> (\<forall>c\<in>set g2. isspace c)))
        (parse_toc example_toc_blank None)"
    unfolding list_all_iff by (rule descriptor_title_url)
qed

subsection \<open>C8: the description of a descriptor\<close>

text \<open>
  C8. Every descriptor \<open>_parse_toc\<close> returns, for any TOC text and any query filter, has
  as description its category, \<open>": "\<close> and its title when its category is non-empty, and
  its title alone when its category is empty.
\<close>

theorem descriptor_description:
  "\<forall>d\<in>set (parse_toc toc_content query).
     description d = (if category d \<noteq> [] then category d @ '': '' @ title d else title d)"
  by (rule parse_toc_invariant) simp


text \<open>On \<open>example_toc\<close>: one entry with the empty category and two under \<open>Setup\<close>.\<close>

theorem descriptor_description_witness:
  "parse_toc example_toc None =
     [\<lparr> title = ''Intro'', category = [], url = ''https://x/intro'', description = ''Intro'' \<rparr>,
      \<lparr> title = ''Installation'', category = ''Setup'', url = ''https://x/install'',
         description = ''Setup: Installation'' \<rparr>,
      \<lparr> title = ''Quickstart'', category = ''Setup'', url = ''https://x/quick'',
         description = ''Setup: Quickstart'' \<rparr>]
   \<and> list_all (\<lambda>d. description d = (if category d \<noteq> [] then category d @ '': '' @ title d else title d))
        (parse_toc example_toc None)"
proof (rule conjI)
  show "parse_toc example_toc None =
     [\<lparr> title = ''Intro'', category = [], url = ''https://x/intro'', description = ''Intro'' \<rparr>,
      \<lparr> title = ''Installation'', category = ''Setup'', url = ''https://x/install'',
         description = ''Setup: Installation'' \<rparr>,
      \<lparr> title = ''Quickstart'', category = ''Setup'', url = ''https://x/quick'',
         description = ''Setup: Quickstart'' \<rparr>]"
    by code_simp
  show "list_all (\<lambda>d. description d = (if category d \<noteq> [] then category d @ '': '' @ title d else title d))
        (parse_toc example_toc None)"
    unfolding list_all_iff by (rule descriptor_description)
qed

subsection \<open>C9: an empty body is reported as not found\<close>

text \<open>
  C9. Let the requested title be first matched at the line \<open>tline\<close>, and let the lines
  \<open>after\<close> it be of one of these shapes: front-matter lines, the closing \<open>---\<close>, and at once
  a section boundary \<open>b1\<close>, \<open>b2\<close>; or front-matter lines and the closing \<open>---\<close> at the end of
  the document (as its last line, or followed only by the empty piece that a final newline
  leaves); or no line that strips to \<open>---\<close> at all. Then \<open>_find_section_content\<close> returns
  the empty string, and \<open>_extract_sections_from_docs\<close> maps the title, when requested, to
  the not-found placeholder.
\<close>

theorem empty_body_reported_not_found:
  assumes "split_lines full_docs = pre @ tline # after"
    and "\<forall>l\<in>set pre. \<not> title_line_matches l req"
    and "title_line_matches tline req"
    and "(after = fm @ cline # b1 # b2 # rest \<and> (\<forall>l\<in>set fm. strip l \<noteq> ''---'')
            \<and> strip cline = ''---'' \<and> section_boundary b1 b2)
       \<or> (after = fm @ cline # tail \<and> (\<forall>l\<in>set fm. strip l \<noteq> ''---'')
            \<and> strip cline = ''---'' \<and> (tail = [] \<or> tail = [[]]))
       \<or> (\<forall>l\<in>set after. strip l \<noteq> ''---'')"
    and "req \<in> set section_titles"
  shows "find_section_content full_docs req = Some []
     \<and> map_of (extract_sections_from_docs full_docs section_titles) req =
         Some (''Section '' @ [CHR 0x27] @ req @ [CHR 0x27] @ '' not found in documentation.'')"
proof -
  have found: "find_section_content full_docs req =
          Some (join_lines (collect_content (skip_frontmatter after)))"
    unfolding find_section_content_def assms(1)
    by (rule find_in_lines_first[OF assms(2) assms(3)])
  have "join_lines (collect_content (skip_frontmatter after)) = []"
  proof -
    consider
      (boundary) "after = fm @ cline # b1 # b2 # rest" "\<forall>l\<in>set fm. strip l \<noteq> ''---''"
        "strip cline = ''---''" "section_boundary b1 b2"
    | (at_end) "after = fm @ cline # tail" "\<forall>l\<in>set fm. strip l \<noteq> ''---''"
        "strip cline = ''---''" "tail = [] \<or> tail = [[]]"
    | (unclosed) "\<forall>l\<in>set after. strip l \<noteq> ''---''"
      using assms(4) by blast
    then show ?thesis
    proof cases
      case boundary
      have "skip_frontmatter after = b1 # b2 # rest"
        unfolding boundary(1) by (rule skip_frontmatter_closing[OF boundary(2) boundary(3)])
      then show ?thesis using boundary(4) by (simp add: section_boundary_def)
    next
      case at_end
      have "skip_frontmatter after = tail"
        unfolding at_end(1) by (rule skip_frontmatter_closing[OF at_end(2) at_end(3)])
      then show ?thesis using at_end(4) by auto
    next
      case unclosed
      then have "skip_frontmatter after = []" by (rule skip_frontmatter_unclosed)
      then show ?thesis by simp
    qed
  qed
  with found have empty: "find_section_content full_docs req = Some []" by simp
  have "map_of (extract_sections_from_docs full_docs section_titles) req = Some (not_found_message req)"
    using map_of_extract_sections_from_docs[OF assms(5)] content_for_empty[OF empty] by simp
  then have "map_of (extract_sections_from_docs full_docs section_titles) req =
         Some (''Section '' @ [CHR 0x27] @ req @ [CHR 0x27] @ '' not found in documentation.'')"
    by (simp add: not_found_message_def)
  with empty show ?thesis by blast
qed

text \<open>
  One document for each shape: a boundary right after the front matter, the closing
  \<open>---\<close> as last line, the closing \<open>---\<close> before a final newline, and no closing \<open>---\<close>.
\<close>

theorem empty_body_reported_not_found_witness:
  "(find_section_content ''---\<newline>title: Empty\<newline>---\<newline>---\<newline>\<newline>---\<newline>title: Next\<newline>---\<newline>body'' ''Empty'' = Some []
    \<and> map_of (extract_sections_from_docs ''---\<newline>title: Empty\<newline>---\<newline>---\<newline>\<newline>---\<newline>title: Next\<newline>---\<newline>body'' [''Empty'']) ''Empty'' =
         Some (''Section '' @ [CHR 0x27] @ ''Empty'' @ [CHR 0x27] @ '' not found in documentation.''))
   \<and> (find_section_content ''---\<newline>title: Empty\<newline>---'' ''Empty'' = Some []
    \<and> map_of (extract_sections_from_docs ''---\<newline>title: Empty\<newline>---'' [''Empty'']) ''Empty'' =
         Some (''Section '' @ [CHR 0x27] @ ''Empty'' @ [CHR 0x27] @ '' not found in documentation.''))
   \<and> (find_section_content ''---\<newline>title: Empty\<newline>---\<newline>'' ''Empty'' = Some []
    \<and> map_of (extract_sections_from_docs ''---\<newline>title: Empty\<newline>---\<newline>'' [''Empty'']) ''Empty'' =
         Some (''Section '' @ [CHR 0x27] @ ''Empty'' @ [CHR 0x27] @ '' not found in documentation.''))
   \<and> (find_section_content ''---\<newline>title: Empty\<newline>no closing here'' ''Empty'' = Some []
    \<and> map_of (extract_sections_from_docs ''---\<newline>title: Empty\<newline>no closing here'' [''Empty'']) ''Empty'' =
         Some (''Section '' @ [CHR 0x27] @ ''Empty'' @ [CHR 0x27] @ '' not found in documentation.''))"
proof -
  have p: "\<forall>l\<in>set [''---'']. \<not> title_line_matches l ''Empty''" by code_simp
  have t: "title_line_matches ''title: Empty'' ''Empty''" by code_simp
  have r: "''Empty'' \<in> set [''Empty'']" by simp
  have a1: "split_lines ''---\<newline>title: Empty\<newline>---\<newline>---\<newline>\<newline>---\<newline>title: Next\<newline>---\<newline>body'' =
      [''---''] @ ''title: Empty'' # [''---'', ''---'', [], ''---'', ''title: Next'', ''---'', ''body'']"
    by code_simp
  have a4: "([''---'', ''---'', [], ''---'', ''title: Next'', ''---'', ''body''] =
              [] @ ''---'' # ''---'' # [] # [''---'', ''title: Next'', ''---'', ''body'']
            \<and> (\<forall>l\<in>set []. strip l \<noteq> ''---'') \<and> strip ''---'' = ''---'' \<and> section_boundary ''---'' [])
       \<or> ([''---'', ''---'', [], ''---'', ''title: Next'', ''---'', ''body''] = [] @ ''---'' # []
            \<and> (\<forall>l\<in>set []. strip l \<noteq> ''---'') \<and> strip ''---'' = ''---''
            \<and> (([]::string list) = [] \<or> ([]::string list) = [[]]))
       \<or> (\<forall>l\<in>set [''---'', ''---'', [], ''---'', ''title: Next'', ''---'', ''body'']. strip l \<noteq> ''---'')"
    by code_simp
  have b1: "split_lines ''---\<newline>title: Empty\<newline>---'' = [''---''] @ ''title: Empty'' # [''---'']"
    by code_simp
  have b4: "([''---''] = [] @ ''---'' # [] # [] # [] \<and> (\<forall>l\<in>set []. strip l \<noteq> ''---'')
            \<and> strip ''---'' = ''---'' \<and> section_boundary [] [])
       \<or> ([''---''] = [] @ ''---'' # [] \<and> (\<forall>l\<in>set []. strip l \<noteq> ''---'') \<and> strip ''---'' = ''---''
            \<and> (([]::string list) = [] \<or> ([]::string list) = [[]]))
       \<or> (\<forall>l\<in>set [''---'']. strip l \<noteq> ''---'')"
    by code_simp
  have n1: "split_lines ''---\<newline>title: Empty\<newline>---\<newline>'' = [''---''] @ ''title: Empty'' # [''---'', []]"
    by code_simp
  have n4: "([''---'', []] = [] @ ''---'' # [] # [] # [] \<and> (\<forall>l\<in>set []. strip l \<noteq> ''---'')
            \<and> strip ''---'' = ''---'' \<and> section_boundary [] [])
       \<or> ([''---'', []] = [] @ ''---'' # [[]] \<and> (\<forall>l\<in>set []. strip l \<noteq> ''---'') \<and> strip ''---'' = ''---''
            \<and> ([[]] = ([]::string list) \<or> [[]] = [[]::string]))
       \<or> (\<forall>l\<in>set [''---'', []]. strip l \<noteq> ''---'')"
    by code_simp
  have c1: "split_lines ''---\<newline>title: Empty\<newline>no closing here'' =
      [''---''] @ ''title: Empty'' # [''no closing here'']"
    by code_simp
  have c4: "([''no closing here''] = [] @ [] # [] # [] # [] \<and> (\<forall>l\<in>set []. strip l \<noteq> ''---'')
            \<and> strip [] = ''---'' \<and> section_boundary [] [])
       \<or> ([''no closing here''] = [] @ [] # [] \<and> (\<forall>l\<in>set []. strip l \<noteq> ''---'') \<and> strip [] = ''---''
            \<and> (([]::string list) = [] \<or> ([]::string list) = [[]]))
       \<or> (\<forall>l\<in>set [''no closing here'']. strip l \<noteq> ''---'')"
    by code_simp
  show ?thesis
    using empty_body_reported_not_found[OF a1 p t a4 r]
      empty_body_reported_not_found[OF b1 p t b4 r]
      empty_body_reported_not_found[OF n1 p t n4 r]
      empty_body_reported_not_found[OF c1 p t c4 r]
    by (intro conjI) blast+
qed

subsection \<open>C10: the url lookup is case-sensitive\<close>

text \<open>
  C10. Let the requested title \<open>req\<close> agree with a title \<open>t\<close> up to letter case, let \<open>req\<close>
  itself be the title of no TOC entry, and let the section \<open>t\<close> have the non-empty body
  \<open>c\<close> in the full-docs text. Then the fetch operation succeeds and its entry for \<open>req\<close>
  has the content \<open>c\<close> and the url \<open>URL not found\<close>.
\<close>

theorem url_lookup_case_sensitive:
  assumes "lower req = lower t"
    and "req \<notin> title ` set (parse_toc toc_content None)"
    and "find_section_content full_docs t = Some c"
    and "c \<noteq> []"
    and "req \<in> set section_titles"
  shows "\<exists>ec. fetch_content_async (Inr toc_content) (Inr full_docs) section_titles user_query =
            Inr (JObj [(''success'', JBool True),
                       (''user_query'', JStr user_query),
                       (''extracted_content'', JObj ec),
                       (''sections_found'', JInt (length ec))])
          \<and> map_of ec req = Some (JObj [(''url'', JStr ''URL not found''), (''content'', JStr c)])"
proof -
  let ?m = "section_url_map (parse_toc toc_content None)"
  let ?cs = "extract_sections_from_docs full_docs section_titles"
  let ?g = "\<lambda>kv. JObj [(''url'', JStr (url_of ?m (fst kv))), (''content'', JStr (snd kv))]"
  let ?ec = "map (\<lambda>kv. (fst kv, ?g kv)) ?cs"
  have found: "find_section_content full_docs req = Some c"
    using find_section_content_lower[OF assms(1), of full_docs] assms(3) by simp
  have "map_of ?cs req = Some c"
    using map_of_extract_sections_from_docs[OF assms(5), of full_docs]
      content_for_found[OF found assms(4)] by simp
  then have "map_of ?ec req = Some (?g (req, c))"
    by (rule map_of_entries)
  then have entry: "map_of ?ec req = Some (JObj [(''url'', JStr ''URL not found''), (''content'', JStr c)])"
    using url_of_missing[OF assms(2)] by simp
  have res: "fetch_content_async (Inr toc_content) (Inr full_docs) section_titles user_query =
            Inr (JObj [(''success'', JBool True),
                       (''user_query'', JStr user_query),
                       (''extracted_content'', JObj ?ec),
                       (''sections_found'', JInt (length ?ec))])"
    using fetch_content_async_success[of toc_content full_docs section_titles user_query] by simp
  from res entry show ?thesis by blast
qed

text \<open>
  On the example documents: the TOC records \<open>Installation\<close>; asking for \<open>installation\<close>
  gives the body without the url, asking for \<open>Installation\<close> gives both.
\<close>

theorem url_lookup_case_sensitive_witness:
  "fetch_content_async (Inr example_toc) (Inr example_docs) [''installation'', ''Installation''] ''how'' =
     Inr (JObj [(''success'', JBool True),
                (''user_query'', JStr ''how''),
                (''extracted_content'',
                   JObj [(''installation'',
                            JObj [(''url'', JStr ''URL not found''),
                                  (''content'', JStr ''Run pip.\<newline>---\<newline>more'')]),
                         (''Installation'',
                            JObj [(''url'', JStr ''https://x/install''),
                                  (''content'', JStr ''Run pip.\<newline>---\<newline>more'')])]),
                (''sections_found'', JInt 2)])
   \<and> (\<exists>ec. fetch_content_async (Inr example_toc) (Inr example_docs) [''installation'', ''Installation''] ''how'' =
            Inr (JObj [(''success'', JBool True),
                       (''user_query'', JStr ''how''),
                       (''extracted_content'', JObj ec),
                       (''sections_found'', JInt (length ec))])
          \<and> map_of ec ''installation'' =
              Some (JObj [(''url'', JStr ''URL not found''),
                          (''content'', JStr ''Run pip.\<newline>---\<newline>more'')]))"
proof (rule conjI)
  show "fetch_content_async (Inr example_toc) (Inr example_docs) [''installation'', ''Installation''] ''how'' =
     Inr (JObj [(''success'', JBool True),
                (''user_query'', JStr ''how''),
                (''extracted_content'',
                   JObj [(''installation'',
                            JObj [(''url'', JStr ''URL not found''),
                                  (''content'', JStr ''Run pip.\<newline>---\<newline>more'')]),
                         (''Installation'',
                            JObj [(''url'', JStr ''https://x/install''),
                                  (''content'', JStr ''Run pip.\<newline>---\<newline>more'')])]),
                (''sections_found'', JInt 2)])"
    by code_simp
  have h1: "lower ''installation'' = lower ''Installation''" by code_simp
  have h2: "''installation'' \<notin> title ` set (parse_toc example_toc None)" by code_simp
  have h3: "find_section_content example_docs ''Installation'' = Some ''Run pip.\<newline>---\<newline>more''"
    by code_simp
  have h4: "''Run pip.\<newline>---\<newline>more'' \<noteq> []" by simp
  have h5: "''installation'' \<in> set [''installation'', ''Installation'']" by simp
  show "\<exists>ec. fetch_content_async (Inr example_toc) (Inr example_docs) [''installation'', ''Installation''] ''how'' =
            Inr (JObj [(''success'', JBool True),
                       (''user_query'', JStr ''how''),
                       (''extracted_content'', JObj ec),
                       (''sections_found'', JInt (length ec))])
          \<and> map_of ec ''installation'' =
              Some (JObj [(''url'', JStr ''URL not found''),
                          (''content'', JStr ''Run pip.\<newline>---\<newline>more'')])"
    by (rule url_lookup_case_sensitive[OF h1 h2 h3 h4 h5])
qed

end
